theory Spec2Isabelle
  imports Complex_Main
begin

section \<open>Data model of \<open>client.py\<close>\<close>

text \<open>
  The two timeout strategies of the client (\<open>class TimeoutStrategy(Enum)\<close>).
\<close>

datatype TimeoutStrategy = AGGRESSIVE | PATIENT

text \<open>
  The dataclass \<open>CallStats\<close>. The counters are Python integers. The durations are
  Python floats; a float is taken as the real number it denotes. The functions of the
  next two sections add durations exactly; the section on floating-point accumulation
  repeats them with the rounded addition of floats, and what is said about the value of
  \<open>total_time\<close> is said there. Every
  constructor call of the source passes \<open>timeout_strategy\<close> and leaves the other fields
  at their defaults, \<open>__post_init__\<close> turning the missing list into the empty one.
\<close>

record CallStats =
  total_calls :: int
  total_errors :: int
  total_success :: int
  total_time :: real
  response_times :: "real list"
  timeout_strategy :: TimeoutStrategy

definition new_CallStats :: "TimeoutStrategy \<Rightarrow> CallStats" where
  "new_CallStats ts =
     \<lparr>total_calls = 0, total_errors = 0, total_success = 0, total_time = 0,
      response_times = [], timeout_strategy = ts\<rparr>"

text \<open>
  What \<open>response.json()\<close> and the error dictionaries are made of.
\<close>

datatype json_value =
    JNull
  | JBool bool
  | JNum real
  | JStr string
  | JArr "json_value list"
  | JObj "(string \<times> json_value) list"

text \<open>
  Exceptions, by the only distinction the \<open>except\<close> clause of
  \<open>make_resilient_call\<close> draws: an instance of \<open>requests.RequestException\<close>, an
  instance of \<open>ValueError\<close>, or anything else. The string is \<open>str(e)\<close>.
\<close>

datatype exception =
    RequestException string
  | ValueError string
  | OtherException string

fun str :: "exception \<Rightarrow> string" where
  "str (RequestException m) = m"
| "str (ValueError m) = m"
| "str (OtherException m) = m"

text \<open>\<open>except (requests.RequestException, ValueError) as e\<close>\<close>

fun caught :: "exception \<Rightarrow> bool" where
  "caught (RequestException m) = True"
| "caught (ValueError m) = True"
| "caught (OtherException m) = False"

text \<open>
  The part of a \<open>requests.Response\<close> the client reads: \<open>status_code\<close>,
  \<open>elapsed.total_seconds()\<close>, and \<open>json()\<close>, which either raises or returns the
  decoded body.
\<close>

record response =
  status_code :: int
  elapsed :: real
  json :: "exception + json_value"

text \<open>
  One HTTP attempt, as the client sees it: \<open>requests.get\<close> raises, or it returns a
  response and \<open>time.time() - start_time\<close>, read after the classification, gives the
  second component.
\<close>

datatype outcome = Raise exception | Return response real

text \<open>
  The network is the outcome of the \<open>k\<close>-th GET request issued, counted from 0 over the
  whole run. The functions below take the number of requests issued so far and return
  the number issued when they are left, so that the attempts of a call can be counted.
\<close>

type_synonym network = "nat \<Rightarrow> outcome"

section \<open>The resilient call\<close>

text \<open>\<open>timeout = 0.3 if timeout_strategy == TimeoutStrategy.AGGRESSIVE else 35.0\<close>\<close>

definition timeout_of :: "TimeoutStrategy \<Rightarrow> real" where
  "timeout_of ts = (if ts = AGGRESSIVE then 0.3 else 35.0)"

text \<open>The values of the local variable \<open>scenario\<close>.\<close>

datatype scenario = failure | success | intermittent_error | slow | error

text \<open>The \<open>if\<close>/\<open>elif\<close> chain of lines 75 to 83, in its order.\<close>

definition classify :: "response \<Rightarrow> real \<Rightarrow> scenario" where
  "classify r timeout =
     (if status_code r = 200 then success
      else if status_code r = 503 then intermittent_error
      else if elapsed r > timeout then slow
      else if status_code r = 500 then error
      else failure)"

text \<open>
  How one iteration of the \<open>for\<close> loop ends: the loop goes on to the next value of
  \<open>attempt\<close> with the statistics as they are (by \<open>continue\<close>, or by reaching the end of
  the body), the function returns, or an exception leaves the function.
\<close>

datatype step = Next CallStats | Returns json_value CallStats | Raises exception

text \<open>
  The \<open>except\<close> block, lines 103 to 107. An exception of another class is not handled.
\<close>

definition except_handler :: "exception \<Rightarrow> int \<Rightarrow> int \<Rightarrow> CallStats \<Rightarrow> step" where
  "except_handler e attempt max_retries stats =
     (if caught e then
        (let stats1 = stats\<lparr>total_errors := total_errors stats + 1\<rparr> in
         if attempt = max_retries - 1
         then Returns (JObj [(''error'', JStr (str e))]) stats1
         else Next stats1)
      else Raises e)"

text \<open>
  The body of the loop, lines 69 to 107, on the outcome of its GET request. In the last
  branch \<open>total_success\<close> is incremented in line 100, before \<open>response.json()\<close> is
  evaluated in line 101 inside the \<open>try\<close> block: an exception of \<open>json()\<close> reaches the
  handler with the statistics of that moment.
\<close>

definition attempt_body :: "outcome \<Rightarrow> real \<Rightarrow> int \<Rightarrow> int \<Rightarrow> CallStats \<Rightarrow> step" where
  "attempt_body out timeout attempt max_retries stats =
     (case out of
        Raise e \<Rightarrow> except_handler e attempt max_retries stats
      | Return r elapsed_time \<Rightarrow>
          (let scen = classify r timeout;
               stats1 = stats\<lparr>total_calls := total_calls stats + 1\<rparr>;
               stats2 = stats1\<lparr>response_times := response_times stats1 @ [elapsed_time]\<rparr>;
               stats3 = stats2\<lparr>total_time := total_time stats2 + elapsed_time\<rparr>
           in
           if scen = intermittent_error \<or> scen = slow then
             (let stats4 = stats3\<lparr>total_errors := total_errors stats3 + 1\<rparr> in
              if attempt < max_retries - 1 then Next stats4 else Next stats4)
           else if scen = error then
             Returns (JObj [(''error'', JStr ''Internal Server Error'')])
               (stats3\<lparr>total_errors := total_errors stats3 + 1\<rparr>)
           else
             (let stats4 = stats3\<lparr>total_success := total_success stats3 + 1\<rparr> in
              case json r of
                Inr body \<Rightarrow> Returns body stats4
              | Inl e \<Rightarrow> except_handler e attempt max_retries stats4)))"

text \<open>
  \<open>for attempt in range(max_retries)\<close>, from the current value of \<open>attempt\<close>, and the
  \<open>return\<close> of line 109 after the loop. The result is the returned pair or the
  exception that left the function, with the number of GET requests issued so far.
\<close>

function attempt_loop ::
  "network \<Rightarrow> real \<Rightarrow> int \<Rightarrow> int \<Rightarrow> CallStats \<Rightarrow> nat
     \<Rightarrow> (exception + json_value \<times> CallStats) \<times> nat" where
  "attempt_loop net timeout max_retries attempt stats n =
     (if attempt < max_retries then
        (case attempt_body (net n) timeout attempt max_retries stats of
           Next stats' \<Rightarrow> attempt_loop net timeout max_retries (attempt + 1) stats' (Suc n)
         | Returns res stats' \<Rightarrow> (Inr (res, stats'), Suc n)
         | Raises e \<Rightarrow> (Inl e, Suc n))
      else (Inr (JObj [(''error'', JStr ''Max retries exceeded'')], stats), n))"
  by pat_completeness auto
termination
  by (relation "measure (\<lambda>(net, timeout, max_retries, attempt, stats, n).
        nat (max_retries - attempt))") auto

definition make_resilient_call ::
  "network \<Rightarrow> string \<Rightarrow> int \<Rightarrow> TimeoutStrategy \<Rightarrow> nat
     \<Rightarrow> (exception + json_value \<times> CallStats) \<times> nat" where
  "make_resilient_call net url max_retries ts n =
     attempt_loop net (timeout_of ts) max_retries 0 (new_CallStats ts) n"

section \<open>The experiment runner\<close>

text \<open>The five accumulations of lines 120 to 124.\<close>

definition accumulate :: "CallStats \<Rightarrow> CallStats \<Rightarrow> CallStats" where
  "accumulate all_stats call_stats =
     all_stats\<lparr>total_calls := total_calls all_stats + total_calls call_stats,
               total_errors := total_errors all_stats + total_errors call_stats,
               total_success := total_success all_stats + total_success call_stats,
               total_time := total_time all_stats + total_time call_stats,
               response_times := response_times all_stats @ response_times call_stats\<rparr>"

text \<open>
  \<open>for i in range(num_calls)\<close>, from the current value of \<open>i\<close>. Each logical call uses
  the default \<open>max_retries = 3\<close>; an exception leaving it leaves \<open>run_test\<close> too.
\<close>

function run_loop ::
  "network \<Rightarrow> string \<Rightarrow> TimeoutStrategy \<Rightarrow> int \<Rightarrow> int \<Rightarrow> CallStats \<Rightarrow> nat
     \<Rightarrow> (exception + CallStats) \<times> nat" where
  "run_loop net url ts num_calls i all_stats n =
     (if i < num_calls then
        (case make_resilient_call net url 3 ts n of
           (Inl e, n') \<Rightarrow> (Inl e, n')
         | (Inr (res, call_stats), n') \<Rightarrow>
             run_loop net url ts num_calls (i + 1) (accumulate all_stats call_stats) n')
      else (Inr all_stats, n))"
  by pat_completeness auto
termination
  by (relation "measure (\<lambda>(net, url, ts, num_calls, i, all_stats, n).
        nat (num_calls - i))") auto

definition run_test ::
  "network \<Rightarrow> int \<Rightarrow> TimeoutStrategy \<Rightarrow> nat \<Rightarrow> (exception + CallStats) \<times> nat" where
  "run_test net num_calls ts n =
     run_loop net ''http://localhost:8080'' ts num_calls 0 (new_CallStats ts) n"

section \<open>Derived statistics\<close>

text \<open>
  The properties of \<open>CallStats\<close> call \<open>statistics.mean\<close>, \<open>statistics.stdev\<close> and
  \<open>numpy.percentile\<close>. These library functions are parameters of the model: each takes
  the samples (and the percentile rank) and raises or returns a number.
\<close>

record library =
  mean :: "real list \<Rightarrow> exception + real"
  stdev :: "real list \<Rightarrow> exception + real"
  np_percentile :: "real list \<Rightarrow> real \<Rightarrow> exception + real"

text \<open>\<open>mean(self.response_times) if self.response_times else 0.0\<close>\<close>

definition average_time :: "library \<Rightarrow> CallStats \<Rightarrow> exception + real" where
  "average_time lib self =
     (if response_times self \<noteq> [] then mean lib (response_times self) else Inr 0.0)"

text \<open>\<open>stdev(self.response_times) if len(self.response_times) > 1 else 0.0\<close>\<close>

definition stddev_time :: "library \<Rightarrow> CallStats \<Rightarrow> exception + real" where
  "stddev_time lib self =
     (if length (response_times self) > 1 then stdev lib (response_times self) else Inr 0.0)"

text \<open>\<open>np.percentile(self.response_times, 95) if self.response_times else 0.0\<close>\<close>

definition percentile_95 :: "library \<Rightarrow> CallStats \<Rightarrow> exception + real" where
  "percentile_95 lib self =
     (if response_times self \<noteq> [] then np_percentile lib (response_times self) 95
      else Inr 0.0)"

section \<open>Floating-point accumulation\<close>

text \<open>
  Python's \<open>float\<close> is the IEEE 754 binary64 format, and \<open>+\<close> on floats returns the
  exact sum rounded to the nearest binary64 number, ties to the even significand. The
  functions of this section give that rounding for results in the normal range
  (overflow and subnormal numbers are left out; durations in seconds are far from both).

  \<open>binade x\<close> is the exponent \<open>e\<close> with \<open>2 ^ e \<le> x < 2 ^ (e + 1)\<close>, for positive \<open>x\<close>.
\<close>

function binade :: "real \<Rightarrow> int" where
  "binade x =
     (if x \<le> 0 then 0
      else if x < 1 then binade (2 * x) - 1
      else if 2 \<le> x then binade (x / 2) + 1
      else 0)"
  by pat_completeness auto
termination
proof (relation "measure (\<lambda>x. nat \<bar>\<lfloor>log 2 x\<rfloor>\<bar>)")
  show "wf (measure (\<lambda>x. nat \<bar>\<lfloor>log 2 x\<rfloor>\<bar>))" by simp
next
  fix x :: real
  assume "\<not> x \<le> 0" and "x < 1"
  then have pos: "0 < x" and neg: "log 2 x < 0" by simp_all
  have "log 2 (2 * x) = 1 + log 2 x" using pos by (simp add: log_mult)
  then have up: "\<lfloor>log 2 (2 * x)\<rfloor> = \<lfloor>log 2 x\<rfloor> + 1" by simp
  have "\<lfloor>log 2 x\<rfloor> < 0" using neg by (simp add: floor_less_iff)
  then have "nat \<bar>\<lfloor>log 2 (2 * x)\<rfloor>\<bar> < nat \<bar>\<lfloor>log 2 x\<rfloor>\<bar>" unfolding up by linarith
  then show "(2 * x, x) \<in> measure (\<lambda>x. nat \<bar>\<lfloor>log 2 x\<rfloor>\<bar>)" by simp
next
  fix x :: real
  assume "\<not> x \<le> 0" and "\<not> x < 1" and "2 \<le> x"
  then have pos: "0 < x" and big: "1 \<le> log 2 x" by (simp_all add: le_log_iff)
  have "log 2 (x / 2) = log 2 x - 1" using pos by (simp add: log_divide)
  then have down: "\<lfloor>log 2 (x / 2)\<rfloor> = \<lfloor>log 2 x\<rfloor> - 1" by simp
  have "1 \<le> \<lfloor>log 2 x\<rfloor>" using big by (simp add: le_floor_iff)
  then have "nat \<bar>\<lfloor>log 2 (x / 2)\<rfloor>\<bar> < nat \<bar>\<lfloor>log 2 x\<rfloor>\<bar>" unfolding down by linarith
  then show "(x / 2, x) \<in> measure (\<lambda>x. nat \<bar>\<lfloor>log 2 x\<rfloor>\<bar>)" by simp
qed

definition pow2 :: "int \<Rightarrow> real" where
  "pow2 e = (if 0 \<le> e then 2 ^ nat e else 1 / 2 ^ nat (- e))"

text \<open>The nearest integer, a tie going to the even one.\<close>

definition round_half_even :: "real \<Rightarrow> int" where
  "round_half_even x =
     (let f = \<lfloor>x\<rfloor>; d = x - of_int f in
      if d < 1 / 2 then f else if 1 / 2 < d then f + 1 else if even f then f else f + 1)"

text \<open>
  A binary64 number has a significand of 53 bits, so between \<open>2 ^ e\<close> and \<open>2 ^ (e + 1)\<close>
  the numbers of the format are the multiples of \<open>2 ^ (e - 52)\<close>.
\<close>

definition round_binary64 :: "real \<Rightarrow> real" where
  "round_binary64 x =
     (if x = 0 then 0
      else (let q = pow2 (binade \<bar>x\<bar> - 52) in of_int (round_half_even (x / q)) * q))"

text \<open>\<open>x + y\<close> on floats.\<close>

definition float_add :: "real \<Rightarrow> real \<Rightarrow> real" where
  "float_add x y = round_binary64 (x + y)"

text \<open>
  The loop body with the addition of line 88 in floating point. All else is
  \<open>attempt_body\<close>.
\<close>

definition attempt_body_float :: "outcome \<Rightarrow> real \<Rightarrow> int \<Rightarrow> int \<Rightarrow> CallStats \<Rightarrow> step" where
  "attempt_body_float out timeout attempt max_retries stats =
     (case out of
        Raise e \<Rightarrow> except_handler e attempt max_retries stats
      | Return r elapsed_time \<Rightarrow>
          (let scen = classify r timeout;
               stats1 = stats\<lparr>total_calls := total_calls stats + 1\<rparr>;
               stats2 = stats1\<lparr>response_times := response_times stats1 @ [elapsed_time]\<rparr>;
               stats3 = stats2\<lparr>total_time := float_add (total_time stats2) elapsed_time\<rparr>
           in
           if scen = intermittent_error \<or> scen = slow then
             (let stats4 = stats3\<lparr>total_errors := total_errors stats3 + 1\<rparr> in
              if attempt < max_retries - 1 then Next stats4 else Next stats4)
           else if scen = error then
             Returns (JObj [(''error'', JStr ''Internal Server Error'')])
               (stats3\<lparr>total_errors := total_errors stats3 + 1\<rparr>)
           else
             (let stats4 = stats3\<lparr>total_success := total_success stats3 + 1\<rparr> in
              case json r of
                Inr body \<Rightarrow> Returns body stats4
              | Inl e \<Rightarrow> except_handler e attempt max_retries stats4)))"

text \<open>The loop and the function around it, over that body.\<close>

function attempt_loop_float ::
  "network \<Rightarrow> real \<Rightarrow> int \<Rightarrow> int \<Rightarrow> CallStats \<Rightarrow> nat
     \<Rightarrow> (exception + json_value \<times> CallStats) \<times> nat" where
  "attempt_loop_float net timeout max_retries attempt stats n =
     (if attempt < max_retries then
        (case attempt_body_float (net n) timeout attempt max_retries stats of
           Next stats' \<Rightarrow>
             attempt_loop_float net timeout max_retries (attempt + 1) stats' (Suc n)
         | Returns res stats' \<Rightarrow> (Inr (res, stats'), Suc n)
         | Raises e \<Rightarrow> (Inl e, Suc n))
      else (Inr (JObj [(''error'', JStr ''Max retries exceeded'')], stats), n))"
  by pat_completeness auto
termination
  by (relation "measure (\<lambda>(net, timeout, max_retries, attempt, stats, n).
        nat (max_retries - attempt))") auto

definition make_resilient_call_float ::
  "network \<Rightarrow> string \<Rightarrow> int \<Rightarrow> TimeoutStrategy \<Rightarrow> nat
     \<Rightarrow> (exception + json_value \<times> CallStats) \<times> nat" where
  "make_resilient_call_float net url max_retries ts n =
     attempt_loop_float net (timeout_of ts) max_retries 0 (new_CallStats ts) n"

text \<open>The accumulations of lines 120 to 124 with the addition of line 123 in floating point.\<close>

definition accumulate_float :: "CallStats \<Rightarrow> CallStats \<Rightarrow> CallStats" where
  "accumulate_float all_stats call_stats =
     all_stats\<lparr>total_calls := total_calls all_stats + total_calls call_stats,
               total_errors := total_errors all_stats + total_errors call_stats,
               total_success := total_success all_stats + total_success call_stats,
               total_time := float_add (total_time all_stats) (total_time call_stats),
               response_times := response_times all_stats @ response_times call_stats\<rparr>"

text \<open>The loop of \<open>run_test\<close> and the function around it, over these.\<close>

function run_loop_float ::
  "network \<Rightarrow> string \<Rightarrow> TimeoutStrategy \<Rightarrow> int \<Rightarrow> int \<Rightarrow> CallStats \<Rightarrow> nat
     \<Rightarrow> (exception + CallStats) \<times> nat" where
  "run_loop_float net url ts num_calls i all_stats n =
     (if i < num_calls then
        (case make_resilient_call_float net url 3 ts n of
           (Inl e, n') \<Rightarrow> (Inl e, n')
         | (Inr (res, call_stats), n') \<Rightarrow>
             run_loop_float net url ts num_calls (i + 1)
               (accumulate_float all_stats call_stats) n')
      else (Inr all_stats, n))"
  by pat_completeness auto
termination
  by (relation "measure (\<lambda>(net, url, ts, num_calls, i, all_stats, n).
        nat (num_calls - i))") auto

definition run_test_float ::
  "network \<Rightarrow> int \<Rightarrow> TimeoutStrategy \<Rightarrow> nat \<Rightarrow> (exception + CallStats) \<times> nat" where
  "run_test_float net num_calls ts n =
     run_loop_float net ''http://localhost:8080'' ts num_calls 0 (new_CallStats ts) n"

section \<open>Predicates of the claims\<close>

text \<open>
  An outcome whose exceptions, from \<open>requests.get\<close> or from \<open>response.json()\<close>, are
  instances of the two classes the \<open>except\<close> clause names: the transport exceptions of
  \<open>requests\<close> and the decoding errors of \<open>json()\<close>.
\<close>

fun handled :: "outcome \<Rightarrow> bool" where
  "handled (Raise e) = caught e"
| "handled (Return r t) = (case json r of Inl e \<Rightarrow> caught e | Inr body \<Rightarrow> True)"

text \<open>
  Every recorded duration belongs to a counted call, every counted call is counted as a
  success or as an error, and the total time is the sum of the recorded durations taken
  from left to right in floating point, starting from \<open>0.0\<close>.
\<close>

definition call_stats_invariant :: "CallStats \<Rightarrow> bool" where
  "call_stats_invariant stats =
     (int (length (response_times stats)) = total_calls stats \<and>
      total_calls stats \<le> total_success stats + total_errors stats \<and>
      total_time stats = foldl float_add 0 (response_times stats))"

text \<open>
  For a run of \<open>k\<close> logical calls of at most \<open>m\<close> attempts each, whose recorded
  durations are \<open>calls\<close>, call by call: the counters as before; the recorded durations
  of the run are those of the calls one after the other, and the total time is the
  floating-point sum, from left to right, of the totals of the calls.
\<close>

definition run_stats_invariant :: "real list list \<Rightarrow> nat \<Rightarrow> nat \<Rightarrow> CallStats \<Rightarrow> bool" where
  "run_stats_invariant calls k m stats =
     (int (length (response_times stats)) = total_calls stats \<and>
      total_calls stats \<le> total_success stats + total_errors stats \<and>
      length calls = k \<and> list_all (\<lambda>call. length call \<le> m) calls \<and>
      concat calls = response_times stats \<and>
      total_time stats = foldl float_add 0 (map (foldl float_add 0) calls))"

section \<open>Concrete networks\<close>

text \<open>Networks on which the theorems below are evaluated.\<close>

definition hello_body :: json_value where
  "hello_body = JObj [(''scenario'', JStr ''normal''), (''message'', JStr ''Hello, World!'')]"

definition always_500 :: network where
  "always_500 k =
     Return \<lparr>status_code = 500, elapsed = 0.1,
             json = Inr (JObj [(''detail'', JStr ''Internal Server Error'')])\<rparr> 0.1"

definition always_503 :: network where
  "always_503 k =
     Return \<lparr>status_code = 503, elapsed = 0.1,
             json = Inr (JObj [(''detail'', JStr ''Service temporarily unavailable'')])\<rparr> 0.1"

definition always_200 :: network where
  "always_200 k = Return \<lparr>status_code = 200, elapsed = 0.1, json = Inr hello_body\<rparr> 0.1"

text \<open>A 200 response that arrives just past the aggressive timeout of 0.3 seconds.\<close>

definition late_200 :: network where
  "late_200 k = Return \<lparr>status_code = 200, elapsed = 0.35, json = Inr hello_body\<rparr> 0.36"

text \<open>A 200 response whose body is not JSON.\<close>

definition html_200 :: network where
  "html_200 k =
     Return \<lparr>status_code = 200, elapsed = 0.1,
             json = Inl (ValueError ''Expecting value: line 1 column 1 (char 0)'')\<rparr> 0.1"

definition always_404 :: network where
  "always_404 k =
     Return \<lparr>status_code = 404, elapsed = 0.1,
             json = Inr (JObj [(''detail'', JStr ''Not Found'')])\<rparr> 0.1"

text \<open>No server is listening: every \<open>requests.get\<close> raises a \<open>ConnectionError\<close>.\<close>

definition refused :: network where
  "refused k = Raise (RequestException ''Connection refused'')"

text \<open>A 503, then a refused connection, then 200 responses.\<close>

definition flaky :: network where
  "flaky k =
     (if k = 0 then always_503 k else if k = 1 then refused k else always_200 k)"

text \<open>The binary64 number written \<open>0.1\<close>.\<close>

definition tenth :: real where
  "tenth = 3602879701896397 / 36028797018963968"

text \<open>
  A 200 after \<open>0.1\<close> seconds, then a 503 after \<open>0.1\<close> seconds, then a 200 after \<open>0.25\<close>
  seconds.
\<close>

definition regrouped :: network where
  "regrouped k =
     (if k = 1 then
        Return \<lparr>status_code = 503, elapsed = tenth,
                json = Inr (JObj [(''detail'', JStr ''Service temporarily unavailable'')])\<rparr>
          tenth
      else if k = 2 then
        Return \<lparr>status_code = 200, elapsed = 1 / 4, json = Inr hello_body\<rparr> (1 / 4)
      else Return \<lparr>status_code = 200, elapsed = tenth, json = Inr hello_body\<rparr> tenth)"

text \<open>
  A 200 response whose body is nested too deeply for the decoder: \<open>json()\<close> raises a
  \<open>RecursionError\<close>, which is neither a \<open>RequestException\<close> nor a \<open>ValueError\<close>.
\<close>

definition nested_200 :: network where
  "nested_200 k =
     Return \<lparr>status_code = 200, elapsed = 0.1,
             json = Inl (OtherException ''maximum recursion depth exceeded'')\<rparr> 0.1"

text \<open>The user interrupts every request: \<open>requests.get\<close> raises \<open>KeyboardInterrupt\<close>.\<close>

definition interrupted :: network where
  "interrupted k = Raise (OtherException ''KeyboardInterrupt'')"

section \<open>Unfolding the loops\<close>

lemma attempt_loop_step:
  "attempt < max_retries \<Longrightarrow>
   attempt_loop net timeout max_retries attempt stats n =
     (case attempt_body (net n) timeout attempt max_retries stats of
        Next stats' \<Rightarrow> attempt_loop net timeout max_retries (attempt + 1) stats' (Suc n)
      | Returns res stats' \<Rightarrow> (Inr (res, stats'), Suc n)
      | Raises e \<Rightarrow> (Inl e, Suc n))"
  by (subst attempt_loop.simps) simp

lemma attempt_loop_done:
  "\<not> attempt < max_retries \<Longrightarrow>
   attempt_loop net timeout max_retries attempt stats n =
     (Inr (JObj [(''error'', JStr ''Max retries exceeded'')], stats), n)"
  by (subst attempt_loop.simps) simp

lemma run_loop_step:
  "i < num_calls \<Longrightarrow>
   run_loop net url ts num_calls i all_stats n =
     (case make_resilient_call net url 3 ts n of
        (Inl e, n') \<Rightarrow> (Inl e, n')
      | (Inr (res, call_stats), n') \<Rightarrow>
          run_loop net url ts num_calls (i + 1) (accumulate all_stats call_stats) n')"
  by (subst run_loop.simps) simp

lemma run_loop_done:
  "\<not> i < num_calls \<Longrightarrow>
   run_loop net url ts num_calls i all_stats n = (Inr all_stats, n)"
  by (subst run_loop.simps) simp

lemma attempt_loop_float_step:
  "attempt < max_retries \<Longrightarrow>
   attempt_loop_float net timeout max_retries attempt stats n =
     (case attempt_body_float (net n) timeout attempt max_retries stats of
        Next stats' \<Rightarrow> attempt_loop_float net timeout max_retries (attempt + 1) stats' (Suc n)
      | Returns res stats' \<Rightarrow> (Inr (res, stats'), Suc n)
      | Raises e \<Rightarrow> (Inl e, Suc n))"
  by (subst attempt_loop_float.simps) simp

lemma attempt_loop_float_done:
  "\<not> attempt < max_retries \<Longrightarrow>
   attempt_loop_float net timeout max_retries attempt stats n =
     (Inr (JObj [(''error'', JStr ''Max retries exceeded'')], stats), n)"
  by (subst attempt_loop_float.simps) simp

lemma run_loop_float_step:
  "i < num_calls \<Longrightarrow>
   run_loop_float net url ts num_calls i all_stats n =
     (case make_resilient_call_float net url 3 ts n of
        (Inl e, n') \<Rightarrow> (Inl e, n')
      | (Inr (res, call_stats), n') \<Rightarrow>
          run_loop_float net url ts num_calls (i + 1) (accumulate_float all_stats call_stats) n')"
  by (subst run_loop_float.simps) simp

lemma run_loop_float_done:
  "\<not> i < num_calls \<Longrightarrow>
   run_loop_float net url ts num_calls i all_stats n = (Inr all_stats, n)"
  by (subst run_loop_float.simps) simp

declare attempt_loop.simps [simp del]
declare run_loop.simps [simp del]
declare attempt_loop_float.simps [simp del]
declare run_loop_float.simps [simp del]
declare binade.simps [simp del]

section \<open>The claims\<close>

text \<open>The definitions a concrete run is evaluated with.\<close>

lemmas evaluation =
  run_test_def run_loop_step run_loop_done accumulate_def make_resilient_call_def
  attempt_loop_step attempt_loop_done attempt_body_def except_handler_def classify_def
  new_CallStats_def timeout_of_def

lemmas float_arithmetic =
  float_add_def round_binary64_def binade.simps pow2_def round_half_even_def

lemmas float_evaluation =
  run_test_float_def run_loop_float_step run_loop_float_done accumulate_float_def
  make_resilient_call_float_def attempt_loop_float_step attempt_loop_float_done
  attempt_body_float_def except_handler_def classify_def new_CallStats_def timeout_of_def

text \<open>The additions of the run over \<open>regrouped\<close>, and of its durations in one row.\<close>

lemma float_add_zero_tenth: "float_add 0 tenth = tenth"
  by (simp add: float_arithmetic tenth_def)

lemma float_add_tenth_quarter:
  "float_add tenth (1 / 4) = 3152519739159347 / 9007199254740992"
  by (simp add: float_arithmetic tenth_def)

lemma float_add_tenth_subtotal:
  "float_add tenth (3152519739159347 / 9007199254740992) =
     2026619832316723 / 4503599627370496"
  by (simp add: float_arithmetic tenth_def)

lemma float_add_tenth_tenth: "float_add tenth tenth = 3602879701896397 / 18014398509481984"
  by (simp add: float_arithmetic tenth_def)

lemma float_add_fifth_quarter:
  "float_add (3602879701896397 / 18014398509481984) (1 / 4) =
     8106479329266893 / 18014398509481984"
  by (simp add: float_arithmetic tenth_def)

lemmas float_sums =
  float_add_zero_tenth float_add_tenth_quarter float_add_tenth_subtotal
  float_add_tenth_tenth float_add_fifth_quarter

text \<open>
  C1. For every \<open>max_retries \<ge> 1\<close>, when every attempt yields a response with status 500
  whose elapsed time is within the active timeout, \<open>make_resilient_call\<close> issues exactly
  one GET request, returns the error result of the \<open>error\<close> scenario at once, and its
  statistics have \<open>total_errors = 1\<close> and \<open>total_success = 0\<close>.
\<close>

theorem server_error_is_not_retried:
  assumes "1 \<le> max_retries"
    and "\<forall>k. \<exists>r t. net k = Return r t \<and> status_code r = 500 \<and> elapsed r \<le> timeout_of ts"
  shows "\<exists>stats. make_resilient_call net url max_retries ts n =
           (Inr (JObj [(''error'', JStr ''Internal Server Error'')], stats), Suc n) \<and>
         total_errors stats = 1 \<and> total_success stats = 0"
proof -
  from assms(2) obtain r t where
    out: "net n = Return r t" "status_code r = 500" "elapsed r \<le> timeout_of ts"
    by blast
  have first: "(0::int) < max_retries" using assms(1) by simp
  have in_time: "\<not> timeout_of ts < elapsed r" using out(3) by simp
  show ?thesis
    by (simp add: make_resilient_call_def attempt_loop_step [OF first] attempt_body_def
        classify_def new_CallStats_def out(1,2) in_time)
qed

text \<open>Three retries allowed, the aggressive strategy, a server that always answers 500.\<close>

theorem server_error_is_not_retried_witness:
  "(1::int) \<le> 3 \<and>
   (\<forall>k. \<exists>r t. always_500 k = Return r t \<and> status_code r = 500 \<and>
      elapsed r \<le> timeout_of AGGRESSIVE) \<and>
   (\<exists>stats. make_resilient_call always_500 ''http://localhost:8080'' 3 AGGRESSIVE 0 =
      (Inr (JObj [(''error'', JStr ''Internal Server Error'')], stats), Suc 0) \<and>
      total_errors stats = 1 \<and> total_success stats = 0)"
proof -
  have h1: "(1::int) \<le> 3" by simp
  have h2: "\<forall>k. \<exists>r t. always_500 k = Return r t \<and> status_code r = 500 \<and>
      elapsed r \<le> timeout_of AGGRESSIVE"
    unfolding always_500_def by (intro allI exI conjI) (rule refl, simp_all add: timeout_of_def)
  from server_error_is_not_retried [OF h1 h2, of "''http://localhost:8080''" 0] h1 h2
  show ?thesis by blast
qed

text \<open>
  C2. A status-200 response whose body does not decode is meant to count as a failure
  only. The code increments \<open>total_success\<close> before it decodes the body, so such an
  attempt is counted as a success and as an error: with one attempt allowed the call
  returns the error result with \<open>total_success = 1\<close> and \<open>total_errors = 1\<close>, and with three
  attempts all three are retried and counted twice.
\<close>

theorem undecodable_200_counted_as_success_and_error:
  "make_resilient_call html_200 ''http://localhost:8080'' 1 AGGRESSIVE 0 =
     (Inr (JObj [(''error'', JStr ''Expecting value: line 1 column 1 (char 0)'')],
           \<lparr>total_calls = 1, total_errors = 1, total_success = 1, total_time = 0.1,
            response_times = [0.1], timeout_strategy = AGGRESSIVE\<rparr>), 1) \<and>
   make_resilient_call html_200 ''http://localhost:8080'' 3 AGGRESSIVE 0 =
     (Inr (JObj [(''error'', JStr ''Expecting value: line 1 column 1 (char 0)'')],
           \<lparr>total_calls = 3, total_errors = 3, total_success = 3, total_time = 0.3,
            response_times = [0.1, 0.1, 0.1], timeout_strategy = AGGRESSIVE\<rparr>), 3)"
  by (simp add: evaluation html_200_def)

text \<open>
  C3. When every attempt yields a status-503 response and \<open>max_retries = 3\<close>,
  \<open>make_resilient_call\<close> issues three GET requests and returns the error result
  \<open>Max retries exceeded\<close>, which differs from the result of the \<open>error\<close> scenario, with
  \<open>total_calls = 3\<close>, \<open>total_errors = 3\<close> and \<open>total_success = 0\<close>.
\<close>

theorem retries_exhausted_on_503:
  assumes "\<forall>k. \<exists>r t. net k = Return r t \<and> status_code r = 503"
  shows "\<exists>stats. make_resilient_call net url 3 ts n =
           (Inr (JObj [(''error'', JStr ''Max retries exceeded'')], stats), n + 3) \<and>
         JObj [(''error'', JStr ''Max retries exceeded'')] \<noteq>
           JObj [(''error'', JStr ''Internal Server Error'')] \<and>
         total_calls stats = 3 \<and> total_errors stats = 3 \<and> total_success stats = 0"
proof -
  from assms obtain r0 t0 where o0: "net n = Return r0 t0" "status_code r0 = 503" by blast
  from assms obtain r1 t1 where o1: "net (Suc n) = Return r1 t1" "status_code r1 = 503" by blast
  from assms obtain r2 t2 where o2: "net (Suc (Suc n)) = Return r2 t2" "status_code r2 = 503"
    by blast
  show ?thesis
    by (simp add: make_resilient_call_def attempt_loop_step attempt_loop_done attempt_body_def
        classify_def new_CallStats_def o0 o1 o2)
qed

text \<open>The patient strategy against a server that always answers 503.\<close>

theorem retries_exhausted_on_503_witness:
  "(\<forall>k. \<exists>r t. always_503 k = Return r t \<and> status_code r = 503) \<and>
   (\<exists>stats. make_resilient_call always_503 ''http://localhost:8080'' 3 PATIENT 0 =
           (Inr (JObj [(''error'', JStr ''Max retries exceeded'')], stats), 0 + 3) \<and>
         JObj [(''error'', JStr ''Max retries exceeded'')] \<noteq>
           JObj [(''error'', JStr ''Internal Server Error'')] \<and>
         total_calls stats = 3 \<and> total_errors stats = 3 \<and> total_success stats = 0)"
proof -
  have h: "\<forall>k. \<exists>r t. always_503 k = Return r t \<and> status_code r = 503"
    unfolding always_503_def by (intro allI exI conjI) (rule refl, simp_all)
  from retries_exhausted_on_503 [OF h, of "''http://localhost:8080''" PATIENT 0] h
  show ?thesis by blast
qed

text \<open>
  From iteration \<open>attempt\<close> on, the loop issues at most \<open>max_retries - attempt\<close> requests,
  and at least one when an iteration is left.
\<close>

lemma attempt_loop_count:
  "attempt \<le> max_retries \<Longrightarrow>
   n \<le> snd (attempt_loop net timeout max_retries attempt stats n) \<and>
   int (snd (attempt_loop net timeout max_retries attempt stats n)) \<le>
     int n + (max_retries - attempt) \<and>
   (attempt < max_retries \<longrightarrow> Suc n \<le> snd (attempt_loop net timeout max_retries attempt stats n))"
proof (induction net timeout max_retries attempt stats n rule: attempt_loop.induct)
  case (1 net timeout max_retries attempt stats n)
  show ?case
  proof (cases "attempt < max_retries")
    case False
    then show ?thesis using "1.prems" by (simp add: attempt_loop_done)
  next
    case True
    show ?thesis
    proof (cases "attempt_body (net n) timeout attempt max_retries stats")
      case (Next stats')
      have le: "attempt + 1 \<le> max_retries" using True by simp
      from "1.IH"[OF True Next le] show ?thesis
        using True Next by (auto simp: attempt_loop_step)
    next
      case (Returns res stats')
      then show ?thesis using True by (simp add: attempt_loop_step)
    next
      case (Raises e)
      then show ?thesis using True by (simp add: attempt_loop_step)
    qed
  qed
qed

text \<open>
  C4. For every \<open>max_retries \<ge> 1\<close> and every network, \<open>make_resilient_call\<close> issues at
  least one and at most \<open>max_retries\<close> GET requests, also when an exception leaves it.
\<close>

theorem attempts_between_one_and_max_retries:
  "1 \<le> max_retries \<Longrightarrow>
   Suc n \<le> snd (make_resilient_call net url max_retries ts n) \<and>
   int (snd (make_resilient_call net url max_retries ts n)) - int n \<le> max_retries"
  using attempt_loop_count [where attempt = 0 and max_retries = max_retries and net = net
      and timeout = "timeout_of ts" and stats = "new_CallStats ts" and n = n]
  by (simp add: make_resilient_call_def)

text \<open>A 503, a refused connection and a 200: three requests with three allowed.\<close>

theorem attempts_between_one_and_max_retries_witness:
  "(1::int) \<le> 3 \<and>
   Suc 0 \<le> snd (make_resilient_call flaky ''http://localhost:8080'' 3 AGGRESSIVE 0) \<and>
   int (snd (make_resilient_call flaky ''http://localhost:8080'' 3 AGGRESSIVE 0)) - int 0 \<le> 3 \<and>
   snd (make_resilient_call flaky ''http://localhost:8080'' 3 AGGRESSIVE 0) = 3"
  using attempts_between_one_and_max_retries [of 3 0 flaky "''http://localhost:8080''" AGGRESSIVE]
  by (simp add: evaluation flaky_def always_503_def refused_def always_200_def)

text \<open>
  C5. An attempt that yields a status-200 response is classified \<open>success\<close> whatever its
  elapsed time, also beyond the timeout: the status check comes first. With a body that
  decodes, the call counts the attempt, increments \<open>total_success\<close> and returns the body.
\<close>

theorem status_200_is_success_even_when_slow:
  assumes "attempt < max_retries"
    and "net n = Return r t"
    and "status_code r = 200"
    and "json r = Inr body"
  shows "classify r timeout = success \<and>
         attempt_loop net timeout max_retries attempt stats n =
           (Inr (body, stats\<lparr>total_calls := total_calls stats + 1,
                             response_times := response_times stats @ [t],
                             total_time := total_time stats + t,
                             total_success := total_success stats + 1\<rparr>), Suc n)"
  using assms by (simp add: attempt_loop_step attempt_body_def classify_def)

text \<open>A 200 response after 0.35 seconds under the aggressive timeout of 0.3 seconds.\<close>

theorem status_200_is_success_even_when_slow_witness:
  "(0::int) < 3 \<and>
   late_200 0 = Return \<lparr>status_code = 200, elapsed = 0.35, json = Inr hello_body\<rparr> 0.36 \<and>
   elapsed \<lparr>status_code = 200, elapsed = 0.35, json = Inr hello_body\<rparr> > timeout_of AGGRESSIVE \<and>
   classify \<lparr>status_code = 200, elapsed = 0.35, json = Inr hello_body\<rparr> (timeout_of AGGRESSIVE) = success \<and>
   make_resilient_call late_200 ''http://localhost:8080'' 3 AGGRESSIVE 0 =
     (Inr (hello_body,
           \<lparr>total_calls = 1, total_errors = 0, total_success = 1, total_time = 0.36,
            response_times = [0.36], timeout_strategy = AGGRESSIVE\<rparr>), 1)"
  using status_200_is_success_even_when_slow [of 0 3 late_200 0
      "\<lparr>status_code = 200, elapsed = 0.35, json = Inr hello_body\<rparr>" "0.36" hello_body
      "timeout_of AGGRESSIVE" "new_CallStats AGGRESSIVE"]
  by (simp add: late_200_def make_resilient_call_def new_CallStats_def timeout_of_def)

text \<open>The handler takes every exception of a handled outcome.\<close>

lemma handled_never_raises:
  "handled out \<Longrightarrow> attempt_body out timeout attempt max_retries stats \<noteq> Raises e"
  by (cases out)
     (auto simp: attempt_body_def except_handler_def Let_def split: sum.splits if_splits)

lemma attempt_loop_returns:
  "\<forall>k. handled (net k) \<Longrightarrow>
   \<exists>res stats' n'. attempt_loop net timeout max_retries attempt stats n = (Inr (res, stats'), n')"
proof (induction net timeout max_retries attempt stats n rule: attempt_loop.induct)
  case (1 net timeout max_retries attempt stats n)
  show ?case
  proof (cases "attempt < max_retries")
    case False
    then show ?thesis by (simp add: attempt_loop_done)
  next
    case True
    show ?thesis
    proof (cases "attempt_body (net n) timeout attempt max_retries stats")
      case (Next stats')
      from "1.IH"[OF True Next "1.prems"] show ?thesis
        using True Next by (simp add: attempt_loop_step)
    next
      case (Returns res stats')
      then show ?thesis using True by (simp add: attempt_loop_step)
    next
      case (Raises e)
      moreover have "handled (net n)" using "1.prems" by simp
      ultimately show ?thesis using handled_never_raises by blast
    qed
  qed
qed

text \<open>
  C6 as stated fails: the \<open>except\<close> clause names two classes only. A 200 response whose
  body is nested too deeply makes \<open>response.json()\<close> raise a \<open>RecursionError\<close>, and an
  interrupt makes \<open>requests.get\<close> raise \<open>KeyboardInterrupt\<close>; either leaves
  \<open>make_resilient_call\<close> at the first attempt.
\<close>

theorem uncaught_exception_leaves_the_call_counterexample:
  "make_resilient_call nested_200 ''http://localhost:8080'' 3 AGGRESSIVE 0 =
     (Inl (OtherException ''maximum recursion depth exceeded''), 1) \<and>
   make_resilient_call interrupted ''http://localhost:8080'' 3 AGGRESSIVE 0 =
     (Inl (OtherException ''KeyboardInterrupt''), 1)"
  by (simp add: evaluation nested_200_def interrupted_def)

text \<open>
  C6, amended. For every url, \<open>max_retries\<close> and strategy, and every network whose
  exceptions, of \<open>requests.get\<close> and of \<open>response.json()\<close>, are instances of
  \<open>requests.RequestException\<close> or of \<open>ValueError\<close>, \<open>make_resilient_call\<close> terminates
  and returns a pair of a result and statistics. An exception of another class is not
  caught: raised by \<open>requests.get\<close>, or by \<open>response.json()\<close> on a response that reaches
  the decoding (scenario \<open>success\<close> or \<open>failure\<close>), it leaves the function at that
  attempt.
\<close>

theorem returns_a_pair_unless_exception_of_other_class:
  "((\<forall>k. handled (net k)) \<longrightarrow>
      (\<exists>res stats n'. make_resilient_call net url max_retries ts n = (Inr (res, stats), n'))) \<and>
   (attempt < max_retries \<and> net n = Raise e \<and> \<not> caught e \<longrightarrow>
      attempt_loop net timeout max_retries attempt current n = (Inl e, Suc n)) \<and>
   (attempt < max_retries \<and> net n = Return r t \<and>
    (classify r timeout = success \<or> classify r timeout = failure) \<and>
    json r = Inl e \<and> \<not> caught e \<longrightarrow>
      attempt_loop net timeout max_retries attempt current n = (Inl e, Suc n))"
proof (intro conjI impI)
  assume "\<forall>k. handled (net k)"
  then show "\<exists>res stats n'. make_resilient_call net url max_retries ts n = (Inr (res, stats), n')"
    unfolding make_resilient_call_def by (rule attempt_loop_returns)
next
  assume "attempt < max_retries \<and> net n = Raise e \<and> \<not> caught e"
  then show "attempt_loop net timeout max_retries attempt current n = (Inl e, Suc n)"
    by (simp add: attempt_loop_step attempt_body_def except_handler_def)
next
  assume "attempt < max_retries \<and> net n = Return r t \<and>
    (classify r timeout = success \<or> classify r timeout = failure) \<and>
    json r = Inl e \<and> \<not> caught e"
  then show "attempt_loop net timeout max_retries attempt current n = (Inl e, Suc n)"
    by (auto simp: attempt_loop_step attempt_body_def except_handler_def Let_def)
qed

text \<open>
  Bodies that never decode and connections that are always refused return a pair; an
  interrupt and a body nested too deeply leave the loop at the first attempt.
\<close>

theorem returns_a_pair_unless_exception_of_other_class_witness:
  "(\<forall>k. handled (html_200 k)) \<and>
   (\<exists>res stats n'. make_resilient_call html_200 ''http://localhost:8080'' 3 AGGRESSIVE 0 =
      (Inr (res, stats), n')) \<and>
   (\<forall>k. handled (refused k)) \<and>
   (\<exists>res stats n'. make_resilient_call refused ''http://localhost:8080'' 3 AGGRESSIVE 0 =
      (Inr (res, stats), n')) \<and>
   (0::int) < 3 \<and> interrupted 0 = Raise (OtherException ''KeyboardInterrupt'') \<and>
   \<not> caught (OtherException ''KeyboardInterrupt'') \<and>
   attempt_loop interrupted (timeout_of AGGRESSIVE) 3 0 (new_CallStats AGGRESSIVE) 0 =
     (Inl (OtherException ''KeyboardInterrupt''), Suc 0) \<and>
   nested_200 0 =
     Return \<lparr>status_code = 200, elapsed = 0.1,
             json = Inl (OtherException ''maximum recursion depth exceeded'')\<rparr> 0.1 \<and>
   classify \<lparr>status_code = 200, elapsed = 0.1,
             json = Inl (OtherException ''maximum recursion depth exceeded'')\<rparr>
     (timeout_of AGGRESSIVE) = success \<and>
   \<not> caught (OtherException ''maximum recursion depth exceeded'') \<and>
   attempt_loop nested_200 (timeout_of AGGRESSIVE) 3 0 (new_CallStats AGGRESSIVE) 0 =
     (Inl (OtherException ''maximum recursion depth exceeded''), Suc 0)"
proof -
  let ?deep = "\<lparr>status_code = 200, elapsed = 0.1,
      json = Inl (OtherException ''maximum recursion depth exceeded'')\<rparr>"
  have h1: "\<forall>k. handled (html_200 k)" by (simp add: html_200_def)
  have h2: "\<forall>k. handled (refused k)" by (simp add: refused_def)
  have h3: "(0::int) < 3 \<and> interrupted 0 = Raise (OtherException ''KeyboardInterrupt'') \<and>
      \<not> caught (OtherException ''KeyboardInterrupt'')"
    by (simp add: interrupted_def)
  have h4: "(0::int) < 3 \<and> nested_200 0 = Return ?deep 0.1 \<and>
      (classify ?deep (timeout_of AGGRESSIVE) = success \<or>
       classify ?deep (timeout_of AGGRESSIVE) = failure) \<and>
      json ?deep = Inl (OtherException ''maximum recursion depth exceeded'') \<and>
      \<not> caught (OtherException ''maximum recursion depth exceeded'')"
    by (simp add: nested_200_def classify_def)
  have c: "classify ?deep (timeout_of AGGRESSIVE) = success" by (simp add: classify_def)
  note amended = returns_a_pair_unless_exception_of_other_class
  from amended [of html_200 "''http://localhost:8080''" 3 AGGRESSIVE 0] h1
  have r1: "\<exists>res stats n'. make_resilient_call html_200 ''http://localhost:8080'' 3
      AGGRESSIVE 0 = (Inr (res, stats), n')" by blast
  from amended [of refused "''http://localhost:8080''" 3 AGGRESSIVE 0] h2
  have r2: "\<exists>res stats n'. make_resilient_call refused ''http://localhost:8080'' 3
      AGGRESSIVE 0 = (Inr (res, stats), n')" by blast
  from amended [where net = interrupted and attempt = 0 and max_retries = 3 and n = 0
      and e = "OtherException ''KeyboardInterrupt''" and timeout = "timeout_of AGGRESSIVE"
      and current = "new_CallStats AGGRESSIVE"] h3
  have r3: "attempt_loop interrupted (timeout_of AGGRESSIVE) 3 0 (new_CallStats AGGRESSIVE) 0 =
      (Inl (OtherException ''KeyboardInterrupt''), Suc 0)" by blast
  from amended [where net = nested_200 and attempt = 0 and max_retries = 3 and n = 0
      and e = "OtherException ''maximum recursion depth exceeded''"
      and timeout = "timeout_of AGGRESSIVE" and current = "new_CallStats AGGRESSIVE"
      and r = ?deep and t = "0.1"] h4
  have r4: "attempt_loop nested_200 (timeout_of AGGRESSIVE) 3 0 (new_CallStats AGGRESSIVE) 0 =
      (Inl (OtherException ''maximum recursion depth exceeded''), Suc 0)" by blast
  from h1 r1 h2 r2 h3 r3 h4 c r4 show ?thesis by blast
qed

text \<open>
  C7 as stated fails: the code validates no parameter. With \<open>num_calls\<close> zero or negative
  \<open>run_test\<close> returns empty statistics, and with \<open>max_retries = 0\<close>
  \<open>make_resilient_call\<close> returns the result \<open>Max retries exceeded\<close>; neither raises.
\<close>

theorem no_validation_of_run_parameters_counterexample:
  "run_test always_200 0 AGGRESSIVE 0 = (Inr (new_CallStats AGGRESSIVE), 0) \<and>
   run_test always_200 (- 1) PATIENT 0 = (Inr (new_CallStats PATIENT), 0) \<and>
   make_resilient_call always_200 ''http://localhost:8080'' 0 AGGRESSIVE 0 =
     (Inr (JObj [(''error'', JStr ''Max retries exceeded'')], new_CallStats AGGRESSIVE), 0)"
  by (simp add: run_test_def run_loop_done make_resilient_call_def attempt_loop_done)

text \<open>
  C7, amended. A non-positive \<open>num_calls\<close> makes \<open>run_test\<close> return the empty statistics
  without a logical call; a non-positive \<open>max_retries\<close> makes \<open>make_resilient_call\<close> return
  the result \<open>Max retries exceeded\<close> with empty statistics without a GET request; and the
  timeout of a strategy is a positive constant, not a parameter: 0.3 seconds for the
  aggressive strategy and 35 seconds for the patient one.
\<close>

theorem non_positive_parameters_run_nothing:
  "(num_calls \<le> 0 \<longrightarrow> run_test net num_calls ts n = (Inr (new_CallStats ts), n)) \<and>
   (max_retries \<le> 0 \<longrightarrow>
      make_resilient_call net url max_retries ts n =
        (Inr (JObj [(''error'', JStr ''Max retries exceeded'')], new_CallStats ts), n)) \<and>
   timeout_of AGGRESSIVE = 0.3 \<and> timeout_of PATIENT = 35 \<and> 0 < timeout_of ts"
  by (simp add: run_test_def run_loop_done make_resilient_call_def attempt_loop_done
      timeout_of_def)

text \<open>Minus two logical calls, and zero retries, after five earlier requests.\<close>

theorem non_positive_parameters_run_nothing_witness:
  "(- 2::int) \<le> 0 \<and>
   run_test refused (- 2) PATIENT 5 = (Inr (new_CallStats PATIENT), 5) \<and>
   (0::int) \<le> 0 \<and>
   make_resilient_call refused ''http://localhost:8080'' 0 PATIENT 5 =
     (Inr (JObj [(''error'', JStr ''Max retries exceeded'')], new_CallStats PATIENT), 5) \<and>
   timeout_of AGGRESSIVE = 0.3 \<and> timeout_of PATIENT = 35 \<and> 0 < timeout_of PATIENT"
  using non_positive_parameters_run_nothing [of "- 2" refused PATIENT 5 0
      "''http://localhost:8080''"]
  by simp

text \<open>
  C8. For every strategy, \<open>run_test\<close> with \<open>num_calls = 0\<close> issues no request (so no
  logical call, each of which issues at least one) and returns statistics whose counters
  and total time are zero and whose \<open>response_times\<close> is empty; on these statistics
  \<open>average_time\<close>, \<open>stddev_time\<close> and \<open>percentile_95\<close> return zero without calling the
  library, whatever the library would do.
\<close>

theorem empty_run_has_zero_statistics:
  "run_test net 0 ts n =
     (Inr \<lparr>total_calls = 0, total_errors = 0, total_success = 0, total_time = 0,
           response_times = [], timeout_strategy = ts\<rparr>, n) \<and>
   average_time lib \<lparr>total_calls = 0, total_errors = 0, total_success = 0, total_time = 0,
                     response_times = [], timeout_strategy = ts\<rparr> = Inr 0 \<and>
   stddev_time lib \<lparr>total_calls = 0, total_errors = 0, total_success = 0, total_time = 0,
                    response_times = [], timeout_strategy = ts\<rparr> = Inr 0 \<and>
   percentile_95 lib \<lparr>total_calls = 0, total_errors = 0, total_success = 0, total_time = 0,
                      response_times = [], timeout_strategy = ts\<rparr> = Inr 0"
  by (simp add: run_test_def run_loop_done new_CallStats_def average_time_def
      stddev_time_def percentile_95_def)

text \<open>
  C9 as stated fails: \<open>run_test\<close> adds the total of each call to the total of the run
  (line 123), and the addition of floats is not associative. Over a 200 after \<open>0.1\<close>
  seconds in the first call, and a 503 after \<open>0.1\<close> seconds and a 200 after \<open>0.25\<close>
  seconds in the second, the run returns \<open>total_time = 0.44999999999999996\<close>, while the
  sum of its \<open>response_times\<close> is \<open>0.45\<close>, taken exactly or from left to right in
  floating point.
\<close>

theorem grouped_total_time_counterexample:
  "run_test_float regrouped 2 AGGRESSIVE 0 =
     (Inr \<lparr>total_calls = 3, total_errors = 1, total_success = 2,
           total_time = 2026619832316723 / 4503599627370496,
           response_times = [tenth, tenth, 1 / 4], timeout_strategy = AGGRESSIVE\<rparr>, 3) \<and>
   sum_list [tenth, tenth, 1 / 4] = 8106479329266893 / 18014398509481984 \<and>
   foldl float_add 0 [tenth, tenth, 1 / 4] = 8106479329266893 / 18014398509481984 \<and>
   (2026619832316723 / 4503599627370496 :: real) \<noteq> 8106479329266893 / 18014398509481984"
proof (intro conjI)
  show "run_test_float regrouped 2 AGGRESSIVE 0 =
     (Inr \<lparr>total_calls = 3, total_errors = 1, total_success = 2,
           total_time = 2026619832316723 / 4503599627370496,
           response_times = [tenth, tenth, 1 / 4], timeout_strategy = AGGRESSIVE\<rparr>, 3)"
    by (simp add: float_evaluation regrouped_def float_sums)
  show "sum_list [tenth, tenth, 1 / 4] = 8106479329266893 / 18014398509481984"
    by (simp add: tenth_def)
  show "foldl float_add 0 [tenth, tenth, 1 / 4] = 8106479329266893 / 18014398509481984"
    by (simp add: float_sums)
  show "(2026619832316723 / 4503599627370496 :: real) \<noteq>
      8106479329266893 / 18014398509481984"
    by simp
qed

text \<open>The invariants hold initially and are kept by every step of both loops.\<close>

lemma new_CallStats_call_invariant: "call_stats_invariant (new_CallStats ts)"
  by (simp add: call_stats_invariant_def new_CallStats_def)

lemma except_handler_call_invariant:
  "call_stats_invariant stats \<Longrightarrow>
   except_handler e attempt max_retries stats = Next stats' \<or>
   except_handler e attempt max_retries stats = Returns res stats' \<Longrightarrow>
   call_stats_invariant stats' \<and> total_calls stats' = total_calls stats"
  by (auto simp: except_handler_def call_stats_invariant_def Let_def split: if_splits)

lemma attempt_body_float_invariant:
  assumes inv: "call_stats_invariant stats"
    and body: "attempt_body_float out timeout attempt max_retries stats = Next stats' \<or>
      attempt_body_float out timeout attempt max_retries stats = Returns res stats'"
  shows "call_stats_invariant stats' \<and> total_calls stats' \<le> total_calls stats + 1"
proof (cases out)
  case (Raise e)
  then show ?thesis
    using inv body except_handler_call_invariant [of stats e attempt max_retries stats' res]
    by (simp add: attempt_body_float_def)
next
  case (Return r t)
  let ?counted = "stats\<lparr>total_calls := total_calls stats + 1,
                        response_times := response_times stats @ [t],
                        total_time := float_add (total_time stats) t,
                        total_success := total_success stats + 1\<rparr>"
  have counted: "call_stats_invariant ?counted"
    using inv by (simp add: call_stats_invariant_def)
  show ?thesis
  proof (cases "json r")
    case (Inr b)
    then show ?thesis using inv body Return
      by (auto simp: attempt_body_float_def call_stats_invariant_def Let_def split: if_splits)
  next
    case (Inl e)
    show ?thesis
    proof (cases "classify r timeout = intermittent_error \<or> classify r timeout = slow \<or>
        classify r timeout = error")
      case True
      then show ?thesis using inv body Return
        by (auto simp: attempt_body_float_def call_stats_invariant_def Let_def
            split: if_splits)
    next
      case False
      then have "except_handler e attempt max_retries ?counted = Next stats' \<or>
          except_handler e attempt max_retries ?counted = Returns res stats'"
        using body Return Inl by (simp add: attempt_body_float_def Let_def)
      from except_handler_call_invariant [OF counted this] show ?thesis by simp
    qed
  qed
qed

lemma attempt_loop_float_invariant:
  "call_stats_invariant stats \<Longrightarrow>
   attempt_loop_float net timeout max_retries attempt stats n = (Inr (res, stats'), n') \<Longrightarrow>
   call_stats_invariant stats' \<and>
   total_calls stats' \<le> total_calls stats + max 0 (max_retries - attempt)"
proof (induction net timeout max_retries attempt stats n rule: attempt_loop_float.induct)
  case (1 net timeout max_retries attempt stats n)
  show ?case
  proof (cases "attempt < max_retries")
    case False
    then show ?thesis using "1.prems" by (simp add: attempt_loop_float_done)
  next
    case True
    show ?thesis
    proof (cases "attempt_body_float (net n) timeout attempt max_retries stats")
      case (Next stats1)
      have inv1: "call_stats_invariant stats1"
        and le1: "total_calls stats1 \<le> total_calls stats + 1"
        using attempt_body_float_invariant [OF "1.prems"(1)] Next by blast+
      have "attempt_loop_float net timeout max_retries (attempt + 1) stats1 (Suc n) =
          (Inr (res, stats'), n')"
        using "1.prems"(2) True Next by (simp add: attempt_loop_float_step)
      from "1.IH" [OF True Next inv1 this] show ?thesis using le1 True by auto
    next
      case (Returns res1 stats1)
      then have "stats1 = stats'"
        using "1.prems"(2) True by (simp add: attempt_loop_float_step)
      then show ?thesis
        using attempt_body_float_invariant [OF "1.prems"(1)] Returns True by fastforce
    next
      case (Raises e)
      then show ?thesis using "1.prems"(2) True by (simp add: attempt_loop_float_step)
    qed
  qed
qed

lemma make_resilient_call_float_invariant:
  assumes "make_resilient_call_float net url max_retries ts n = (Inr (res, stats), n')"
  shows "call_stats_invariant stats \<and> total_calls stats \<le> max 0 max_retries"
  using attempt_loop_float_invariant [OF new_CallStats_call_invariant,
      of net "timeout_of ts" max_retries 0 ts n res stats n'] assms
  by (simp add: make_resilient_call_float_def new_CallStats_def)

lemma new_CallStats_run_invariant: "run_stats_invariant [] 0 m (new_CallStats ts)"
  by (simp add: run_stats_invariant_def new_CallStats_def)

lemma accumulate_float_invariant:
  assumes run: "run_stats_invariant calls k m all_stats"
    and call: "call_stats_invariant call_stats"
    and short: "length (response_times call_stats) \<le> m"
  shows "run_stats_invariant (calls @ [response_times call_stats]) (Suc k) m
           (accumulate_float all_stats call_stats)"
  using run call short
  by (simp add: run_stats_invariant_def call_stats_invariant_def accumulate_float_def)

lemma run_loop_float_invariant:
  "run_stats_invariant calls k 3 all_stats \<Longrightarrow>
   run_loop_float net url ts num_calls i all_stats n = (Inr stats', n') \<Longrightarrow>
   \<exists>calls'. run_stats_invariant calls' (k + nat (num_calls - i)) 3 stats'"
proof (induction net url ts num_calls i all_stats n arbitrary: calls k
    rule: run_loop_float.induct)
  case (1 net url ts num_calls i all_stats n)
  show ?case
  proof (cases "i < num_calls")
    case False
    then have "stats' = all_stats" using "1.prems"(2) by (simp add: run_loop_float_done)
    then show ?thesis using "1.prems"(1) False by auto
  next
    case True
    obtain outcome n1 where call: "make_resilient_call_float net url 3 ts n = (outcome, n1)"
      by (cases "make_resilient_call_float net url 3 ts n")
    show ?thesis
    proof (cases outcome)
      case (Inl e)
      then show ?thesis using "1.prems"(2) True call by (simp add: run_loop_float_step)
    next
      case (Inr pair)
      obtain res call_stats where pair: "pair = (res, call_stats)" by (cases pair)
      have inv: "call_stats_invariant call_stats" and le: "total_calls call_stats \<le> 3"
        using make_resilient_call_float_invariant [of net url 3 ts n res call_stats n1]
          call Inr pair by simp_all
      have short: "length (response_times call_stats) \<le> 3"
        using inv le by (simp add: call_stats_invariant_def)
      have acc: "run_stats_invariant (calls @ [response_times call_stats]) (Suc k) 3
          (accumulate_float all_stats call_stats)"
        using accumulate_float_invariant [OF "1.prems"(1) inv short] .
      have next_run: "run_loop_float net url ts num_calls (i + 1)
          (accumulate_float all_stats call_stats) n1 = (Inr stats', n')"
        using "1.prems"(2) True call Inr pair by (simp add: run_loop_float_step)
      have c1: "(outcome, n1) = make_resilient_call_float net url 3 ts n" using call by simp
      have c2: "(res, call_stats) = pair" using pair by simp
      have eq: "Suc k + nat (num_calls - (i + 1)) = k + nat (num_calls - i)"
        using True by linarith
      have "\<exists>calls'. run_stats_invariant calls' (Suc k + nat (num_calls - (i + 1))) 3 stats'"
        using "1.IH" [OF True c1 Inr c2 acc next_run] .
      then show ?thesis unfolding eq .
    qed
  qed
qed

text \<open>
  C9, amended. The statistics returned by \<open>make_resilient_call\<close> and by \<open>run_test\<close>
  satisfy: the length of \<open>response_times\<close> is \<open>total_calls\<close>, and
  \<open>total_success + total_errors \<ge> total_calls\<close>, where the inequality can be strict:
  three refused connections give \<open>total_errors = 3\<close> with \<open>total_calls = 0\<close>. For
  \<open>make_resilient_call\<close>, \<open>total_time\<close> is the floating-point sum of \<open>response_times\<close>
  taken from left to right from \<open>0.0\<close>. For \<open>run_test\<close>, \<open>response_times\<close> is the
  durations of the \<open>num_calls\<close> logical calls (none when \<open>num_calls\<close> is not positive), at
  most three each, one after the other, and \<open>total_time\<close> is the floating-point sum, from
  left to right, of the totals of the calls, each such a sum of its own durations.
\<close>

theorem returned_statistics_float_invariant:
  "(make_resilient_call_float net url max_retries ts n = (Inr (res, stats), n') \<longrightarrow>
      call_stats_invariant stats) \<and>
   (run_test_float net num_calls ts n = (Inr all_stats, n'') \<longrightarrow>
      (\<exists>calls. run_stats_invariant calls (nat num_calls) 3 all_stats)) \<and>
   make_resilient_call_float refused url 3 ts n =
     (Inr (JObj [(''error'', JStr ''Connection refused'')],
           \<lparr>total_calls = 0, total_errors = 3, total_success = 0, total_time = 0,
            response_times = [], timeout_strategy = ts\<rparr>), n + 3)"
proof (intro conjI impI)
  assume "make_resilient_call_float net url max_retries ts n = (Inr (res, stats), n')"
  then show "call_stats_invariant stats"
    using make_resilient_call_float_invariant by blast
next
  assume "run_test_float net num_calls ts n = (Inr all_stats, n'')"
  then show "\<exists>calls. run_stats_invariant calls (nat num_calls) 3 all_stats"
    unfolding run_test_float_def
    using run_loop_float_invariant [where calls = "[]" and k = 0
        and all_stats = "new_CallStats ts" and net = net
        and url = "''http://localhost:8080''" and ts = ts and num_calls = num_calls
        and i = 0 and n = n and stats' = all_stats and n' = n'']
      new_CallStats_run_invariant [of 3 ts]
    by simp
next
  show "make_resilient_call_float refused url 3 ts n =
     (Inr (JObj [(''error'', JStr ''Connection refused'')],
           \<lparr>total_calls = 0, total_errors = 3, total_success = 0, total_time = 0,
            response_times = [], timeout_strategy = ts\<rparr>), n + 3)"
    by (simp add: make_resilient_call_float_def attempt_loop_float_step
        attempt_loop_float_done attempt_body_float_def except_handler_def new_CallStats_def
        refused_def)
qed

text \<open>
  The second logical call over \<open>regrouped\<close>, and the run of two, whose calls recorded
  \<open>[0.1]\<close> and \<open>[0.1, 0.25]\<close>.
\<close>

theorem returned_statistics_float_invariant_witness:
  "make_resilient_call_float regrouped ''http://localhost:8080'' 3 AGGRESSIVE 1 =
     (Inr (hello_body,
           \<lparr>total_calls = 2, total_errors = 1, total_success = 1,
            total_time = 3152519739159347 / 9007199254740992,
            response_times = [tenth, 1 / 4], timeout_strategy = AGGRESSIVE\<rparr>), 3) \<and>
   call_stats_invariant
     \<lparr>total_calls = 2, total_errors = 1, total_success = 1,
      total_time = 3152519739159347 / 9007199254740992,
      response_times = [tenth, 1 / 4], timeout_strategy = AGGRESSIVE\<rparr> \<and>
   run_test_float regrouped 2 AGGRESSIVE 0 =
     (Inr \<lparr>total_calls = 3, total_errors = 1, total_success = 2,
           total_time = 2026619832316723 / 4503599627370496,
           response_times = [tenth, tenth, 1 / 4], timeout_strategy = AGGRESSIVE\<rparr>, 3) \<and>
   (\<exists>calls. run_stats_invariant calls (nat 2) 3
     \<lparr>total_calls = 3, total_errors = 1, total_success = 2,
      total_time = 2026619832316723 / 4503599627370496,
      response_times = [tenth, tenth, 1 / 4], timeout_strategy = AGGRESSIVE\<rparr>) \<and>
   run_stats_invariant [[tenth], [tenth, 1 / 4]] 2 3
     \<lparr>total_calls = 3, total_errors = 1, total_success = 2,
      total_time = 2026619832316723 / 4503599627370496,
      response_times = [tenth, tenth, 1 / 4], timeout_strategy = AGGRESSIVE\<rparr>"
proof -
  let ?s1 = "\<lparr>total_calls = 2, total_errors = 1, total_success = 1,
      total_time = 3152519739159347 / 9007199254740992,
      response_times = [tenth, 1 / 4], timeout_strategy = AGGRESSIVE\<rparr>"
  let ?s2 = "\<lparr>total_calls = 3, total_errors = 1, total_success = 2,
      total_time = 2026619832316723 / 4503599627370496,
      response_times = [tenth, tenth, 1 / 4], timeout_strategy = AGGRESSIVE\<rparr>"
  have call: "make_resilient_call_float regrouped ''http://localhost:8080'' 3 AGGRESSIVE 1 =
      (Inr (hello_body, ?s1), 3)"
    by (simp add: float_evaluation regrouped_def float_sums)
  have run: "run_test_float regrouped 2 AGGRESSIVE 0 = (Inr ?s2, 3)"
    by (simp add: float_evaluation regrouped_def float_sums)
  from returned_statistics_float_invariant [of regrouped "''http://localhost:8080''" 3
      AGGRESSIVE 1 hello_body ?s1 3 2 ?s2 3] call
  have inv1: "call_stats_invariant ?s1" by blast
  from returned_statistics_float_invariant [of regrouped "''http://localhost:8080''" 3
      AGGRESSIVE 0 hello_body ?s1 3 2 ?s2 3] run
  have inv2: "\<exists>calls. run_stats_invariant calls (nat 2) 3 ?s2" by blast
  have inv3: "run_stats_invariant [[tenth], [tenth, 1 / 4]] 2 3 ?s2"
    by (simp add: run_stats_invariant_def float_sums)
  from call inv1 run inv2 inv3 show ?thesis by blast
qed

text \<open>
  C10. An attempt that yields a response whose status is none of 200, 503 and 500 and
  whose elapsed time is within the timeout (a 404, say) is handled as a success: the
  variable \<open>scenario\<close> keeps its initial value, which the last \<open>else\<close> branch takes, so
  with a body that decodes \<open>total_success\<close> is incremented and the body returned at once.
\<close>

theorem other_status_is_handled_as_success:
  assumes "attempt < max_retries"
    and "net n = Return r t"
    and "status_code r \<notin> {200, 503, 500}"
    and "elapsed r \<le> timeout"
    and "json r = Inr body"
  shows "attempt_loop net timeout max_retries attempt stats n =
           (Inr (body, stats\<lparr>total_calls := total_calls stats + 1,
                             response_times := response_times stats @ [t],
                             total_time := total_time stats + t,
                             total_success := total_success stats + 1\<rparr>), Suc n)"
proof -
  have in_time: "\<not> timeout < elapsed r" using assms(4) by simp
  show ?thesis
    using assms(1,2,3,5) in_time by (simp add: attempt_loop_step attempt_body_def classify_def)
qed

text \<open>A server that answers 404 with a JSON body, under the aggressive strategy.\<close>

theorem other_status_is_handled_as_success_witness:
  "(0::int) < 3 \<and>
   always_404 0 =
     Return \<lparr>status_code = 404, elapsed = 0.1,
             json = Inr (JObj [(''detail'', JStr ''Not Found'')])\<rparr> 0.1 \<and>
   (404::int) \<notin> {200, 503, 500} \<and>
   (0.1::real) \<le> timeout_of AGGRESSIVE \<and>
   make_resilient_call always_404 ''http://localhost:8080'' 3 AGGRESSIVE 0 =
     (Inr (JObj [(''detail'', JStr ''Not Found'')],
           \<lparr>total_calls = 1, total_errors = 0, total_success = 1, total_time = 0.1,
            response_times = [0.1], timeout_strategy = AGGRESSIVE\<rparr>), 1)"
  using other_status_is_handled_as_success [of 0 3 always_404 0
      "\<lparr>status_code = 404, elapsed = 0.1,
        json = Inr (JObj [(''detail'', JStr ''Not Found'')])\<rparr>" "0.1"
      "timeout_of AGGRESSIVE" "JObj [(''detail'', JStr ''Not Found'')]"
      "new_CallStats AGGRESSIVE"]
  by (simp add: always_404_def make_resilient_call_def new_CallStats_def timeout_of_def)

end
